theory Spec2Isabelle
  imports Complex_Main "HOL-Library.Product_Lexorder" "HOL-Library.Multiset"
begin

section \<open>Numbers and rounding\<close>

text \<open>
  The services compute with JavaScript numbers, IEEE 754 doubles. A number is modelled
  as the real it denotes, and every arithmetic operation rounds its exact result to the
  nearest double, a tie going to the even significand: \<open>fl\<close>. Doubles of one binade
  \<open>2 ^ e \<le> \<bar>x\<bar> < 2 ^ (e + 1)\<close> are the multiples of \<open>2 ^ (e - 52)\<close>. Overflow and
  subnormal numbers are left out: the quantities below (millilitres, steps, hours,
  percentages, days) stay far inside the normal range.
\<close>

definition round_even :: "real \<Rightarrow> int" where
  "round_even y =
     (let f = \<lfloor>y\<rfloor>; d = y - of_int f
      in if d < 1 / 2 then f else if 1 / 2 < d then f + 1 else if even f then f else f + 1)"

definition pow2 :: "int \<Rightarrow> real" where
  "pow2 e = (if 0 \<le> e then 2 ^ nat e else 1 / 2 ^ nat (- e))"

text \<open>How often a number from 2 on can be halved before it falls below 2.\<close>

function halvings :: "real \<Rightarrow> int" where
  "halvings x = (if x < 2 then 0 else halvings (x / 2) + 1)"
  by pat_completeness auto
termination
proof (relation "measure (\<lambda>x. nat \<lfloor>x\<rfloor>)")
  show "wf (measure (\<lambda>x::real. nat \<lfloor>x\<rfloor>))" by simp
next
  fix x :: real
  assume "\<not> x < 2"
  then have "2 \<le> x" by simp
  then have "\<lfloor>x / 2\<rfloor> < \<lfloor>x\<rfloor>" by (simp add: floor_less_iff; linarith)
  moreover have "0 < \<lfloor>x\<rfloor>" using \<open>2 \<le> x\<close> by simp
  ultimately show "(x / 2, x) \<in> measure (\<lambda>x. nat \<lfloor>x\<rfloor>)" by simp
qed

text \<open>How often a positive number below 1 must be doubled to reach 1.\<close>

function doublings :: "real \<Rightarrow> int" where
  "doublings x = (if x \<le> 0 \<or> 1 \<le> x then 0 else doublings (2 * x) + 1)"
  by pat_completeness auto
termination
proof (relation "measure (\<lambda>x. nat \<lceil>1 / x\<rceil>)")
  show "wf (measure (\<lambda>x::real. nat \<lceil>1 / x\<rceil>))" by simp
next
  fix x :: real
  assume "\<not> (x \<le> 0 \<or> 1 \<le> x)"
  then have x: "0 < x" "x < 1" by simp_all
  then have "1 < 1 / x" by simp
  then have c: "2 \<le> \<lceil>1 / x\<rceil>" by linarith
  have "1 / (2 * x) = (1 / x) / 2" by simp
  also have "\<dots> \<le> of_int \<lceil>1 / x\<rceil> / 2" by (simp add: divide_right_mono)
  finally have "\<lceil>1 / (2 * x)\<rceil> \<le> \<lceil>of_int \<lceil>1 / x\<rceil> / (2::real)\<rceil>"
    by (rule ceiling_mono)
  also have "\<dots> < \<lceil>1 / x\<rceil>" using c by (simp add: ceiling_less_iff; linarith)
  finally show "(2 * x, x) \<in> measure (\<lambda>x. nat \<lceil>1 / x\<rceil>)" using c x by simp
qed

declare halvings.simps [simp del] doublings.simps [simp del]

text \<open>The binade of a positive number: the \<open>e\<close> with \<open>2 ^ e \<le> x < 2 ^ (e + 1)\<close>.\<close>

definition binade :: "real \<Rightarrow> int" where
  "binade x = (if 1 \<le> x then halvings x else - doublings x)"

definition fl :: "real \<Rightarrow> real" where
  "fl x = (if x = 0 then 0
           else let u = pow2 (binade \<bar>x\<bar> - 52) in of_int (round_even (x / u)) * u)"

text \<open>The operators \<open>+\<close>, \<open>-\<close>, \<open>*\<close> and \<open>/\<close> on numbers.\<close>

definition js_add :: "real \<Rightarrow> real \<Rightarrow> real" where
  "js_add a b = fl (a + b)"

definition js_sub :: "real \<Rightarrow> real \<Rightarrow> real" where
  "js_sub a b = fl (a - b)"

definition js_mul :: "real \<Rightarrow> real \<Rightarrow> real" where
  "js_mul a b = fl (a * b)"

definition js_div :: "real \<Rightarrow> real \<Rightarrow> real" where
  "js_div a b = fl (a / b)"

text \<open>
  \<open>Math.round\<close> gives the integer nearest to its argument, a half going up (towards plus
  infinity); it is exact on the double it receives.
\<close>

definition js_round :: "real \<Rightarrow> int" where
  "js_round x = \<lfloor>x + 1 / 2\<rfloor>"

text \<open>\<open>values.reduce((sum, val) => sum + val, 0)\<close>\<close>

definition reduce_sum :: "real list \<Rightarrow> real" where
  "reduce_sum values = foldl (\<lambda>sum val. js_add sum val) 0 values"

section \<open>TrendAnalyzer: calculateTrend (services/analyticsService.js)\<close>

datatype trend = Increasing | Decreasing | Stable | Insufficient_data

record trend_result =
  trend :: trend
  percentage :: int

definition calculateTrend :: "real list \<Rightarrow> trend_result" where
  "calculateTrend values =
     (if length values < 2 then \<lparr>trend = Insufficient_data, percentage = 0\<rparr>
      else
        let midPoint = length values div 2;
            firstHalf = take midPoint values;
            secondHalf = drop midPoint values;
            firstHalfAvg = js_div (reduce_sum firstHalf) (of_nat (length firstHalf));
            secondHalfAvg = js_div (reduce_sum secondHalf) (of_nat (length secondHalf));
            percentageChange =
              (if firstHalfAvg > 0
               then js_round
                      (js_mul (js_div (js_sub secondHalfAvg firstHalfAvg) firstHalfAvg) 100)
               else 0)
        in \<lparr>trend = (if percentageChange > 10 then Increasing
                     else if percentageChange < - 10 then Decreasing
                     else Stable),
            percentage = percentageChange\<rparr>)"

text \<open>
  The mean of a series and the relative change of two means, in percent, as the
  specification words them, evaluated the way JavaScript evaluates such expressions: from
  left to right, one rounding per operation.
\<close>

fun js_sum_from :: "real \<Rightarrow> real list \<Rightarrow> real" where
  "js_sum_from acc [] = acc"
| "js_sum_from acc (x # xs) = js_sum_from (js_add acc x) xs"

definition avg :: "real list \<Rightarrow> real" where
  "avg xs = js_div (js_sum_from 0 xs) (of_nat (length xs))"

definition percent_change :: "real \<Rightarrow> real \<Rightarrow> int" where
  "percent_change a1 a2 = js_round (js_mul (js_div (js_sub a2 a1) a1) 100)"

definition classify :: "int \<Rightarrow> trend" where
  "classify p = (if p > 10 then Increasing else if p < - 10 then Decreasing else Stable)"

section \<open>The data store\<close>

text \<open>
  Both services reach PostgreSQL through \<open>pool.query\<close>. The tables the functions
  below read or write are fields of one record. Calendar dates (DATE columns) are day
  numbers; instants (TIMESTAMP columns, \<open>new Date()\<close>) are reals counted in days on
  the server's local clock, taken to run at a fixed offset from UTC, so that local
  midnight of day \<open>d\<close> is the instant \<open>of_int d\<close>. A query can fail: the field
  \<open>faults\<close> lists, for the queries still to come, whether each one is rejected; an
  empty list is a healthy store.
\<close>

text \<open>
  The calendar day of an instant. A Date passed as the parameter of \<open>date >= $2\<close> is
  compared with the DATE column as a date: PostgreSQL casts it to its day, so the rows
  of the whole start day are kept.
\<close>

definition day_of :: "real \<Rightarrow> int" where
  "day_of instant = \<lfloor>instant\<rfloor>"

datatype error = Query_failed

record metric_row =
  row_user :: nat
  row_date :: int
  row_value :: int

record kriya_row =
  kriya_user :: nat
  kriya_date :: int

record flag_row =
  flag_user :: nat
  flag_date :: int
  flag_set :: bool

record task_row =
  task_user :: nat
  task_updated_at :: real
  task_completed :: bool

record goal =
  goal_id :: nat
  goal_user_id :: nat
  goal_type :: string
  goal_metric :: string
  goal_target :: real
  goal_status :: string
  goal_created_at :: real

record goal_achievement =
  ga_user_id :: nat
  ga_goal_id :: nat
  ga_achieved_value :: int
  ga_achieved_at :: real

record streak_row =
  current_streak :: int
  longest_streak :: int
  last_activity_date :: "int option"

text \<open>\<open>user_streaks\<close> carries UNIQUE(user_id, activity_type): at most one row per key.\<close>

record pool =
  water_intake :: "metric_row list"
  exercise_tracker :: "metric_row list"
  study_logs :: "metric_row list"
  shambhavi_kriya :: "kriya_row list"
  typing_practice :: "flag_row list"
  constipation_tracker :: "flag_row list"
  tasks :: "task_row list"
  user_goals :: "goal list"
  goal_achievements :: "goal_achievement list"
  user_streaks :: "nat \<times> string \<rightharpoonup> streak_row"
  faults :: "bool list"

text \<open>
  \<open>await pool.query(...)\<close>: the next entry of \<open>faults\<close> is consumed; a rejected query
  leaves the tables as they are and yields the error.
\<close>

definition pool_query :: "pool \<Rightarrow> (pool \<Rightarrow> 'r \<times> pool) \<Rightarrow> (error + 'r) \<times> pool" where
  "pool_query p run =
     (case faults p of
        [] \<Rightarrow> (case run p of (r, p') \<Rightarrow> (Inr r, p'))
      | failing # rest \<Rightarrow>
          if failing then (Inl Query_failed, p\<lparr>faults := rest\<rparr>)
          else (case run (p\<lparr>faults := rest\<rparr>) of (r, p') \<Rightarrow> (Inr r, p')))"

text \<open>
  An awaited call inside an async function without try/catch: a rejection ends the
  caller with the same error, a value goes on to the rest of the body.
\<close>

definition and_then ::
  "(error + 'a) \<times> pool \<Rightarrow> ('a \<Rightarrow> pool \<Rightarrow> (error + 'b) \<times> pool) \<Rightarrow> (error + 'b) \<times> pool" where
  "and_then m rest = (case m of (Inl e, p) \<Rightarrow> (Inl e, p) | (Inr a, p) \<Rightarrow> rest a p)"

text \<open>SQL \<open>AVG\<close>: NULL over no rows.\<close>

definition sql_avg :: "int list \<Rightarrow> real option" where
  "sql_avg vs = (if vs = [] then None else Some (of_int (sum_list vs) / of_nat (length vs)))"

text \<open>
  \<open>rows[0].avg_value ? Math.round(parseFloat(rows[0].avg_value)) : 0\<close>; \<open>parseFloat\<close>
  gives the double nearest to the average.
\<close>

definition round_or_zero :: "real option \<Rightarrow> int" where
  "round_or_zero a = (case a of None \<Rightarrow> 0 | Some v \<Rightarrow> js_round (fl v))"

definition metric_since :: "nat \<Rightarrow> real \<Rightarrow> metric_row list \<Rightarrow> metric_row list" where
  "metric_since userId since rows =
     filter (\<lambda>r. row_user r = userId \<and> day_of since \<le> row_date r) rows"

definition flag_since :: "nat \<Rightarrow> real \<Rightarrow> flag_row list \<Rightarrow> flag_row list" where
  "flag_since userId since rows =
     filter (\<lambda>r. flag_user r = userId \<and> day_of since \<le> flag_date r) rows"

definition kriya_since :: "nat \<Rightarrow> real \<Rightarrow> kriya_row list \<Rightarrow> kriya_row list" where
  "kriya_since userId since rows =
     filter (\<lambda>r. kriya_user r = userId \<and> day_of since \<le> kriya_date r) rows"

definition task_since :: "nat \<Rightarrow> real \<Rightarrow> task_row list \<Rightarrow> task_row list" where
  "task_since userId since rows =
     filter (\<lambda>r. task_user r = userId \<and> since \<le> task_updated_at r) rows"

text \<open>\<open>CASE WHEN flag THEN 100 ELSE 0 END\<close>\<close>

definition flag_percent :: "bool \<Rightarrow> int" where
  "flag_percent b = (if b then 100 else 0)"

section \<open>GoalTracker (services/analyticsService.js)\<close>

definition getCurrentMetricValue ::
  "pool \<Rightarrow> real \<Rightarrow> nat \<Rightarrow> string \<Rightarrow> string \<Rightarrow> (error + int) \<times> pool" where
  "getCurrentMetricValue p now userId metric type =
     (let last30Days = now - 30 in
      if metric = ''water_intake'' then
        and_then (pool_query p (\<lambda>q. (sql_avg (map row_value
                    (metric_since userId last30Days (water_intake q))), q)))
          (\<lambda>avg_value q. (Inr (round_or_zero avg_value), q))
      else if metric = ''exercise_steps'' then
        and_then (pool_query p (\<lambda>q. (sql_avg (map row_value
                    (metric_since userId last30Days (exercise_tracker q))), q)))
          (\<lambda>avg_value q. (Inr (round_or_zero avg_value), q))
      else if metric = ''study_hours'' then
        and_then (pool_query p (\<lambda>q. (sql_avg (map row_value
                    (metric_since userId last30Days (study_logs q))), q)))
          (\<lambda>avg_value q. (Inr (round_or_zero avg_value), q))
      else if metric = ''kriya_sessions'' then
        and_then (pool_query p (\<lambda>q.
                    (length (kriya_since userId last30Days (shambhavi_kriya q)), q)))
          (\<lambda>total q. (Inr (int total), q))
      else if metric = ''typing_completion_rate'' then
        and_then (pool_query p (\<lambda>q. (sql_avg (map (\<lambda>r. flag_percent (flag_set r))
                    (flag_since userId last30Days (typing_practice q))), q)))
          (\<lambda>avg_rate q. (Inr (round_or_zero avg_rate), q))
      else if metric = ''constipation_positive_rate'' then
        and_then (pool_query p (\<lambda>q. (sql_avg (map (\<lambda>r. flag_percent (flag_set r))
                    (flag_since userId last30Days (constipation_tracker q))), q)))
          (\<lambda>avg_rate q. (Inr (round_or_zero avg_rate), q))
      else if metric = ''task_completion_rate'' then
        and_then (pool_query p (\<lambda>q. (sql_avg (map (\<lambda>r. flag_percent (task_completed r))
                    (task_since userId last30Days (tasks q))), q)))
          (\<lambda>avg_rate q. (Inr (round_or_zero avg_rate), q))
      else (Inr 0, p))"

text \<open>\<open>ORDER BY date ASC\<close>\<close>

definition order_by_date :: "metric_row list \<Rightarrow> metric_row list" where
  "order_by_date rows = sort_key row_date rows"

definition getGoalTrend ::
  "pool \<Rightarrow> real \<Rightarrow> nat \<Rightarrow> string \<Rightarrow> string \<Rightarrow> (error + trend_result) \<times> pool" where
  "getGoalTrend p now userId metric type =
     (let last7Days = now - 7 in
      if metric = ''water_intake'' then
        and_then (pool_query p (\<lambda>q.
                    (order_by_date (metric_since userId last7Days (water_intake q)), q)))
          (\<lambda>rows q. (Inr (calculateTrend (map (\<lambda>row. of_int (row_value row)) rows)), q))
      else if metric = ''exercise_steps'' then
        and_then (pool_query p (\<lambda>q.
                    (order_by_date (metric_since userId last7Days (exercise_tracker q)), q)))
          (\<lambda>rows q. (Inr (calculateTrend (map (\<lambda>row. of_int (row_value row)) rows)), q))
      else if metric = ''study_hours'' then
        and_then (pool_query p (\<lambda>q.
                    (order_by_date (metric_since userId last7Days (study_logs q)), q)))
          (\<lambda>rows q. (Inr (calculateTrend (map (\<lambda>row. of_int (row_value row)) rows)), q))
      else (Inr (calculateTrend []), p))"

datatype progress_status = Needs_attention | Behind | On_track | Achieved

record detailed_progress =
  dp_currentValue :: int
  dp_progress :: int
  dp_progressStatus :: progress_status
  dp_trend :: trend
  dp_trendPercentage :: int
  dp_daysSinceCreation :: int

definition calculateDetailedGoalProgress ::
  "pool \<Rightarrow> real \<Rightarrow> nat \<Rightarrow> goal \<Rightarrow> (error + detailed_progress) \<times> pool" where
  "calculateDetailedGoalProgress p now userId g =
     and_then (getCurrentMetricValue p now userId (goal_metric g) (goal_type g))
       (\<lambda>currentValue p1.
          let target = goal_target g;
              progress = (if target > 0
                          then js_round (js_mul (js_div (of_int currentValue) target) 100)
                          else 0);
              progressStatus = (if progress \<ge> 100 then Achieved
                                else if progress \<ge> 80 then On_track
                                else if progress \<ge> 50 then Behind
                                else Needs_attention)
          in and_then (getGoalTrend p1 now userId (goal_metric g) (goal_type g))
               (\<lambda>trendData p2.
                  (Inr \<lparr>dp_currentValue = currentValue,
                        dp_progress = min progress 100,
                        dp_progressStatus = progressStatus,
                        dp_trend = trend trendData,
                        dp_trendPercentage = percentage trendData,
                        dp_daysSinceCreation = \<lceil>fl (now - goal_created_at g)\<rceil>\<rparr>, p2)))"

text \<open>
  \<open>ORDER BY created_at DESC LIMIT 1\<close>: the row created last (among rows created at
  the same instant, the one the table lists first).
\<close>

definition newest_goal :: "goal list \<Rightarrow> goal option" where
  "newest_goal gs =
     (case gs of
        [] \<Rightarrow> None
      | g # rest \<Rightarrow>
          Some (foldl (\<lambda>best x. if goal_created_at best < goal_created_at x then x else best)
                  g rest))"

record goal_progress =
  gp_goalId :: nat
  gp_target :: real
  gp_current :: real
  gp_progress :: int
  gp_status :: progress_status

definition calculateGoalProgress ::
  "pool \<Rightarrow> nat \<Rightarrow> string \<Rightarrow> real \<Rightarrow> (error + goal_progress option) \<times> pool" where
  "calculateGoalProgress p userId metric currentValue =
     and_then (pool_query p (\<lambda>q.
                 (newest_goal (filter (\<lambda>g. goal_user_id g = userId \<and> goal_metric g = metric
                                          \<and> goal_status g = ''active'') (user_goals q)), q)))
       (\<lambda>row p1.
          case row of
            None \<Rightarrow> (Inr None, p1)
          | Some g \<Rightarrow>
              let target = goal_target g;
                  progress = (if target > 0
                              then js_round (js_mul (js_div currentValue target) 100)
                              else 0)
              in (Inr (Some \<lparr>gp_goalId = goal_id g,
                              gp_target = target,
                              gp_current = currentValue,
                              gp_progress = min progress 100,
                              gp_status = (if progress \<ge> 100 then Achieved
                                           else if progress \<ge> 80 then On_track
                                           else if progress \<ge> 50 then Behind
                                           else Needs_attention)\<rparr>), p1))"

text \<open>\<open>UPDATE user_goals SET status = $1 WHERE id = $2\<close>\<close>

definition update_goal_status :: "string \<Rightarrow> nat \<Rightarrow> pool \<Rightarrow> unit \<times> pool" where
  "update_goal_status st gid q =
     ((), q\<lparr>user_goals := map (\<lambda>g. if goal_id g = gid then g\<lparr>goal_status := st\<rparr> else g)
                              (user_goals q)\<rparr>)"

definition recordGoalAchievement ::
  "pool \<Rightarrow> real \<Rightarrow> nat \<Rightarrow> nat \<Rightarrow> int \<Rightarrow> (error + unit) \<times> pool" where
  "recordGoalAchievement p now userId goalId achievedValue =
     pool_query p (\<lambda>q. ((), q\<lparr>goal_achievements := goal_achievements q @
        [\<lparr>ga_user_id = userId, ga_goal_id = goalId,
          ga_achieved_value = achievedValue, ga_achieved_at = now\<rparr>]\<rparr>))"

record achieved_goal =
  ag_goal :: goal
  ag_achievedValue :: int
  ag_achievedAt :: real

text \<open>The body of \<open>for (const goal of activeGoals.rows)\<close>, over the rows still to visit.\<close>

fun achievements_loop ::
  "real \<Rightarrow> nat \<Rightarrow> goal list \<Rightarrow> achieved_goal list \<Rightarrow> pool \<Rightarrow> (error + achieved_goal list) \<times> pool"
  where
  "achievements_loop now userId [] achievedGoals p = (Inr achievedGoals, p)"
| "achievements_loop now userId (g # rows) achievedGoals p =
     and_then (getCurrentMetricValue p now userId (goal_metric g) (goal_type g))
       (\<lambda>currentValue p1.
          if of_int currentValue \<ge> goal_target g then
            and_then (pool_query p1 (update_goal_status ''completed'' (goal_id g)))
              (\<lambda>_ p2.
                 and_then (recordGoalAchievement p2 now userId (goal_id g) currentValue)
                   (\<lambda>_ p3.
                      achievements_loop now userId rows
                        (achievedGoals @ [\<lparr>ag_goal = g, ag_achievedValue = currentValue,
                                            ag_achievedAt = now\<rparr>]) p3))
          else achievements_loop now userId rows achievedGoals p1)"

definition checkGoalAchievements ::
  "pool \<Rightarrow> real \<Rightarrow> nat \<Rightarrow> (error + achieved_goal list) \<times> pool" where
  "checkGoalAchievements p now userId =
     and_then (pool_query p (\<lambda>q.
                 (filter (\<lambda>g. goal_user_id g = userId \<and> goal_status g = ''active'')
                    (user_goals q), q)))
       (\<lambda>activeGoals p1. achievements_loop now userId activeGoals [] p1)"

subsection \<open>calculateGoalStreak\<close>

record daily_value =
  dv_date :: int
  dv_value :: real

text \<open>\<open>GROUP BY DATE(date) ORDER BY date ASC\<close> with \<open>COUNT( * )\<close> as the value.\<close>

definition count_by_date :: "int list \<Rightarrow> daily_value list" where
  "count_by_date dates =
     map (\<lambda>d. \<lparr>dv_date = d, dv_value = of_nat (count_list dates d)\<rparr>) (sort (remdups dates))"

definition daily_of_rows :: "metric_row list \<Rightarrow> daily_value list" where
  "daily_of_rows rows =
     map (\<lambda>row. \<lparr>dv_date = row_date row, dv_value = of_int (row_value row)\<rparr>) (order_by_date rows)"

definition getDailyMetricValues ::
  "pool \<Rightarrow> real \<Rightarrow> nat \<Rightarrow> string \<Rightarrow> real \<Rightarrow> (error + daily_value list) \<times> pool" where
  "getDailyMetricValues p now userId metric days =
     (let startDate = now - days in
      if metric = ''water_intake'' then
        pool_query p (\<lambda>q. (daily_of_rows (metric_since userId startDate (water_intake q)), q))
      else if metric = ''exercise_steps'' then
        pool_query p (\<lambda>q. (daily_of_rows (metric_since userId startDate (exercise_tracker q)), q))
      else if metric = ''study_hours'' then
        pool_query p (\<lambda>q. (daily_of_rows (metric_since userId startDate (study_logs q)), q))
      else if metric = ''kriya_sessions'' then
        pool_query p (\<lambda>q. (count_by_date (map kriya_date
                              (kriya_since userId startDate (shambhavi_kriya q))), q))
      else (Inr [], p))"

text \<open>The variables of the streak loop.\<close>

record streak_vars =
  currentStreak :: int
  longestStreak :: int
  tempStreak :: int
  lastAchievedDate :: "int option"

text \<open>
  \<open>for (let i = dailyValues.length - 1; i >= 0; i--)\<close>: the third argument is \<open>i + 1\<close>,
  the number of days still to visit.
\<close>

fun goal_streak_loop :: "real \<Rightarrow> daily_value list \<Rightarrow> nat \<Rightarrow> streak_vars \<Rightarrow> streak_vars" where
  "goal_streak_loop target dailyValues 0 s = s"
| "goal_streak_loop target dailyValues (Suc i) s =
     (let dailyValue = dailyValues ! i in
      if dv_value dailyValue \<ge> target then
        let s1 = s\<lparr>tempStreak := tempStreak s + 1\<rparr>;
            s2 = (if int i = int (length dailyValues) - 1
                  then s1\<lparr>currentStreak := tempStreak s1\<rparr> else s1);
            s3 = (if lastAchievedDate s2 = None
                  then s2\<lparr>lastAchievedDate := Some (dv_date dailyValue)\<rparr> else s2)
        in goal_streak_loop target dailyValues i s3
      else
        let s1 = (if tempStreak s > longestStreak s
                  then s\<lparr>longestStreak := tempStreak s\<rparr> else s);
            s2 = (if int i = int (length dailyValues) - 1
                  then s1\<lparr>currentStreak := 0\<rparr> else s1);
            s3 = s2\<lparr>tempStreak := 0\<rparr>
        in goal_streak_loop target dailyValues i s3)"

record goal_streak =
  gs_currentStreak :: int
  gs_longestStreak :: int
  gs_lastAchievedDate :: "int option"

text \<open>The part of calculateGoalStreak after its two queries.\<close>

definition goal_streak_of :: "real \<Rightarrow> daily_value list \<Rightarrow> goal_streak" where
  "goal_streak_of target dailyValues =
     (let s = goal_streak_loop target dailyValues (length dailyValues)
                \<lparr>currentStreak = 0, longestStreak = 0, tempStreak = 0, lastAchievedDate = None\<rparr>;
          longest = (if tempStreak s > longestStreak s then tempStreak s else longestStreak s)
      in \<lparr>gs_currentStreak = currentStreak s, gs_longestStreak = longest,
          gs_lastAchievedDate = lastAchievedDate s\<rparr>)"

definition calculateGoalStreak ::
  "pool \<Rightarrow> real \<Rightarrow> nat \<Rightarrow> string \<Rightarrow> string \<Rightarrow> (error + goal_streak) \<times> pool" where
  "calculateGoalStreak p now userId metric type =
     and_then (pool_query p (\<lambda>q.
                 (newest_goal (filter (\<lambda>g. goal_user_id g = userId \<and> goal_metric g = metric
                                          \<and> goal_type g = type) (user_goals q)), q)))
       (\<lambda>row p1.
          case row of
            None \<Rightarrow> (Inr \<lparr>gs_currentStreak = 0, gs_longestStreak = 0,
                           gs_lastAchievedDate = None\<rparr>, p1)
          | Some g \<Rightarrow>
              and_then (getDailyMetricValues p1 now userId metric 30)
                (\<lambda>dailyValues p2. (Inr (goal_streak_of (goal_target g) dailyValues), p2)))"

text \<open>The length of the trailing run of days that meet the target.\<close>

definition trailing_run :: "real \<Rightarrow> daily_value list \<Rightarrow> nat" where
  "trailing_run target dailyValues =
     length (takeWhile (\<lambda>d. dv_value d \<ge> target) (rev dailyValues))"

section \<open>ConsistencyAnalyzer: calculateStudyConsistencyPatterns\<close>

record consistency_vars =
  cv_streaks :: "int list"
  cv_gaps :: "int list"
  cv_currentStreak :: int
  cv_longestStreak :: int

text \<open>\<open>for (let i = 1; i < studyDays.length; i++)\<close> over the study dates.\<close>

function consistency_loop :: "int list \<Rightarrow> nat \<Rightarrow> consistency_vars \<Rightarrow> consistency_vars" where
  "consistency_loop studyDays i s =
     (if i < length studyDays then
        let daysDiff = studyDays ! i - studyDays ! (i - 1) in
        if daysDiff = 1 then
          consistency_loop studyDays (i + 1) (s\<lparr>cv_currentStreak := cv_currentStreak s + 1\<rparr>)
        else
          consistency_loop studyDays (i + 1)
            \<lparr>cv_streaks = cv_streaks s @ [cv_currentStreak s],
             cv_gaps = cv_gaps s @ [daysDiff - 1],
             cv_currentStreak = 1,
             cv_longestStreak = max (cv_longestStreak s) (cv_currentStreak s)\<rparr>
      else s)"
  by pat_completeness auto
termination
  by (relation "measure (\<lambda>(studyDays, i, s). length studyDays - i)") auto

record consistency_patterns =
  totalStreaks :: nat
  averageStreakLength :: int
  totalGaps :: nat
  longestGap :: int

text \<open>
  \<open>consistencyRate\<close> is \<open>None\<close> where JavaScript's quotient is not a finite number
  (\<open>totalDays = 0\<close>); \<open>patterns\<close> is \<open>None\<close> for the empty array of the no-data result.
\<close>

record consistency_result =
  cr_totalDays :: int
  cr_studyDays :: nat
  cr_consistencyRate :: "int option"
  cr_longestStreak :: int
  cr_currentStreak :: int
  cr_averageGapBetweenSessions :: int
  cr_patterns :: "consistency_patterns option"

text \<open>\<open>Math.round(xs.reduce((sum, x) => sum + x, 0) / xs.length)\<close>\<close>

definition rounded_mean :: "int list \<Rightarrow> int" where
  "rounded_mean xs = js_round (js_div (reduce_sum (map of_int xs)) (of_nat (length xs)))"

text \<open>\<open>Math.max(...gaps)\<close> on a list that is not empty.\<close>

definition max_of :: "int list \<Rightarrow> int" where
  "max_of xs = foldl max (hd xs) (tl xs)"

text \<open>The part of calculateStudyConsistencyPatterns after its query.\<close>

definition consistency_of :: "real \<Rightarrow> real \<Rightarrow> int list \<Rightarrow> consistency_result" where
  "consistency_of now startDate studyDays =
     (let totalDays = \<lceil>fl (now - startDate)\<rceil> in
      if length studyDays = 0 then
        \<lparr>cr_totalDays = totalDays, cr_studyDays = 0, cr_consistencyRate = Some 0,
         cr_longestStreak = 0, cr_currentStreak = 0, cr_averageGapBetweenSessions = 0,
         cr_patterns = None\<rparr>
      else
        let s = consistency_loop studyDays 1
                  \<lparr>cv_streaks = [], cv_gaps = [], cv_currentStreak = 1, cv_longestStreak = 1\<rparr>;
            streaks = cv_streaks s @ [cv_currentStreak s];
            gaps = cv_gaps s;
            currentStreak = cv_currentStreak s;
            longestStreak = max (cv_longestStreak s) currentStreak;
            lastStudyDate = studyDays ! (length studyDays - 1);
            daysSinceLastStudy = js_round (fl (now - of_int lastStudyDate));
            currentActiveStreak = (if daysSinceLastStudy \<le> 1 then currentStreak else 0);
            averageGap = (if length gaps > 0 then rounded_mean gaps else 0);
            consistencyRate =
              (if totalDays = 0 then None
               else Some (js_round
                            (js_mul (js_div (of_nat (length studyDays)) (of_int totalDays))
                               100)))
        in \<lparr>cr_totalDays = totalDays, cr_studyDays = length studyDays,
            cr_consistencyRate = consistencyRate,
            cr_longestStreak = longestStreak, cr_currentStreak = currentActiveStreak,
            cr_averageGapBetweenSessions = averageGap,
            cr_patterns = Some
              \<lparr>totalStreaks = length streaks,
               averageStreakLength = (if length streaks > 0 then rounded_mean streaks else 0),
               totalGaps = length gaps,
               longestGap = (if length gaps > 0 then max_of gaps else 0)\<rparr>\<rparr>)"

definition calculateStudyConsistencyPatterns ::
  "pool \<Rightarrow> real \<Rightarrow> nat \<Rightarrow> real \<Rightarrow> (error + consistency_result) \<times> pool" where
  "calculateStudyConsistencyPatterns p now userId startDate =
     and_then (pool_query p (\<lambda>q.
                 (map row_date (order_by_date (metric_since userId startDate (study_logs q))), q)))
       (\<lambda>studyDays p1. (Inr (consistency_of now startDate studyDays), p1))"

section \<open>Streak service (services/streakService.js)\<close>

text \<open>\<open>{success: true, ...}\<close> or \<open>{success: false, error: message}\<close>\<close>

datatype 'a service_result = Success 'a | Failure string

record streak_data =
  sd_currentStreak :: int
  sd_longestStreak :: int
  sd_lastActivityDate :: "int option"

text \<open>
  \<open>try { body } catch (error) { return {success: false, error: message} }\<close>: whatever
  the body throws, the function returns.
\<close>

definition try_catch :: "(error + 'a) \<times> pool \<Rightarrow> string \<Rightarrow> (error + 'a service_result) \<times> pool" where
  "try_catch body message =
     (case body of
        (Inl e, p) \<Rightarrow> (Inr (Failure message), p)
      | (Inr v, p) \<Rightarrow> (Inr (Success v), p))"

definition select_streak :: "nat \<Rightarrow> string \<Rightarrow> pool \<Rightarrow> streak_row list \<times> pool" where
  "select_streak userId activityType q =
     ((case user_streaks q (userId, activityType) of None \<Rightarrow> [] | Some r \<Rightarrow> [r]), q)"

text \<open>\<open>UPDATE user_streaks SET current_streak, longest_streak, last_activity_date WHERE key\<close>\<close>

definition update_streak :: "nat \<Rightarrow> string \<Rightarrow> int \<Rightarrow> int \<Rightarrow> int \<Rightarrow> pool \<Rightarrow> unit \<times> pool" where
  "update_streak userId activityType cs ls date q =
     ((), case user_streaks q (userId, activityType) of
            None \<Rightarrow> q
          | Some r \<Rightarrow> q\<lparr>user_streaks := (user_streaks q)((userId, activityType) \<mapsto>
                         r\<lparr>current_streak := cs, longest_streak := ls,
                           last_activity_date := Some date\<rparr>)\<rparr>)"

text \<open>
  \<open>INSERT INTO user_streaks\<close>; the function reaches it only after its own SELECT found
  no row for the key.
\<close>

definition insert_streak :: "nat \<Rightarrow> string \<Rightarrow> int \<Rightarrow> int \<Rightarrow> int \<Rightarrow> pool \<Rightarrow> unit \<times> pool" where
  "insert_streak userId activityType cs ls date q =
     ((), q\<lparr>user_streaks := (user_streaks q)((userId, activityType) \<mapsto>
              \<lparr>current_streak = cs, longest_streak = ls, last_activity_date = Some date\<rparr>)\<rparr>)"

text \<open>\<open>UPDATE user_streaks SET current_streak = $1 WHERE key\<close>\<close>

definition update_current_streak :: "nat \<Rightarrow> string \<Rightarrow> int \<Rightarrow> pool \<Rightarrow> unit \<times> pool" where
  "update_current_streak userId activityType cs q =
     ((), case user_streaks q (userId, activityType) of
            None \<Rightarrow> q
          | Some r \<Rightarrow> q\<lparr>user_streaks := (user_streaks q)((userId, activityType) \<mapsto>
                         r\<lparr>current_streak := cs\<rparr>)\<rparr>)"

text \<open>
  \<open>new Date(date)\<close> reads \<open>YYYY-MM-DD\<close> as midnight UTC of that day, the instant
  \<open>of_int date + tz\<close> on a local clock that is \<open>tz\<close> days ahead of UTC (behind, when
  \<open>tz\<close> is negative); \<open>setHours(0, 0, 0, 0)\<close> then moves it to the local midnight
  before it. The stored \<open>last_activity_date\<close> arrives as the local midnight of its day.
  Both are local midnights, so their distance is a whole number of days.
\<close>

definition activity_day :: "real \<Rightarrow> int \<Rightarrow> int" where
  "activity_day tz date = day_of (of_int date + tz)"

definition updateUserStreak_body ::
  "pool \<Rightarrow> real \<Rightarrow> nat \<Rightarrow> string \<Rightarrow> int \<Rightarrow> bool \<Rightarrow> (error + streak_data) \<times> pool" where
  "updateUserStreak_body p tz userId activityType date completed =
     and_then (pool_query p (select_streak userId activityType))
       (\<lambda>rows p1.
          let activityDate = activity_day tz date;
              currentStreak0 = (case rows of [] \<Rightarrow> 0 | streak # _ \<Rightarrow> current_streak streak);
              longestStreak0 = (case rows of [] \<Rightarrow> 0 | streak # _ \<Rightarrow> longest_streak streak);
              lastActivityDate = (case rows of [] \<Rightarrow> None
                                  | streak # _ \<Rightarrow> last_activity_date streak)
          in
          if completed then
            let currentStreak1 =
                  (case lastActivityDate of
                     Some lastDay \<Rightarrow>
                       let daysDiff = activityDate - lastDay in
                       if daysDiff = 1 then currentStreak0 + 1
                       else if daysDiff = 0 then currentStreak0
                       else 1
                   | None \<Rightarrow> 1);
                longestStreak1 = (if currentStreak1 > longestStreak0
                                  then currentStreak1 else longestStreak0)
            in and_then
                 (if length rows > 0
                  then pool_query p1
                         (update_streak userId activityType currentStreak1 longestStreak1 date)
                  else pool_query p1
                         (insert_streak userId activityType currentStreak1 longestStreak1 date))
                 (\<lambda>_ p2. (Inr \<lparr>sd_currentStreak = currentStreak1,
                                 sd_longestStreak = longestStreak1,
                                 sd_lastActivityDate = Some date\<rparr>, p2))
          else
            (case lastActivityDate of
               Some lastDay \<Rightarrow>
                 if activityDate - lastDay > 1 then
                   and_then
                     (if length rows > 0
                      then pool_query p1 (update_current_streak userId activityType 0)
                      else (Inr (), p1))
                     (\<lambda>_ p2. (Inr \<lparr>sd_currentStreak = 0,
                                     sd_longestStreak = longestStreak0,
                                     sd_lastActivityDate = Some date\<rparr>, p2))
                 else (Inr \<lparr>sd_currentStreak = currentStreak0,
                            sd_longestStreak = longestStreak0,
                            sd_lastActivityDate = Some date\<rparr>, p1)
             | None \<Rightarrow> (Inr \<lparr>sd_currentStreak = currentStreak0,
                             sd_longestStreak = longestStreak0,
                             sd_lastActivityDate = Some date\<rparr>, p1)))"

definition updateUserStreak ::
  "pool \<Rightarrow> real \<Rightarrow> nat \<Rightarrow> string \<Rightarrow> int \<Rightarrow> bool
     \<Rightarrow> (error + streak_data service_result) \<times> pool" where
  "updateUserStreak p tz userId activityType date completed =
     try_catch (updateUserStreak_body p tz userId activityType date completed)
       ''Failed to update streak''"

definition getUserStreak ::
  "pool \<Rightarrow> nat \<Rightarrow> string \<Rightarrow> (error + streak_data service_result) \<times> pool" where
  "getUserStreak p userId activityType =
     try_catch
       (and_then (pool_query p (select_streak userId activityType))
          (\<lambda>rows p1.
             case rows of
               streak # _ \<Rightarrow> (Inr \<lparr>sd_currentStreak = current_streak streak,
                                   sd_longestStreak = longest_streak streak,
                                   sd_lastActivityDate = last_activity_date streak\<rparr>, p1)
             | [] \<Rightarrow> (Inr \<lparr>sd_currentStreak = 0, sd_longestStreak = 0,
                           sd_lastActivityDate = None\<rparr>, p1)))
       ''Failed to get streak''"

definition resetUserStreak ::
  "pool \<Rightarrow> nat \<Rightarrow> string \<Rightarrow> (error + string service_result) \<times> pool" where
  "resetUserStreak p userId activityType =
     try_catch
       (and_then (pool_query p (update_current_streak userId activityType 0))
          (\<lambda>_ p1. (Inr ''Streak reset successfully'', p1)))
       ''Failed to reset streak''"

text \<open>
  Sequences of calls on the streak table, on a server \<open>tz\<close> days ahead of UTC, each
  keeping only the store it leaves.
\<close>

datatype streak_op =
    Update_streak nat string int bool
  | Reset_streak nat string
  | Get_streak nat string

fun run_op :: "real \<Rightarrow> streak_op \<Rightarrow> pool \<Rightarrow> pool" where
  "run_op tz (Update_streak userId activityType date completed) p =
     snd (updateUserStreak p tz userId activityType date completed)"
| "run_op tz (Reset_streak userId activityType) p =
     snd (resetUserStreak p userId activityType)"
| "run_op tz (Get_streak userId activityType) p = snd (getUserStreak p userId activityType)"

fun run_ops :: "real \<Rightarrow> streak_op list \<Rightarrow> pool \<Rightarrow> pool" where
  "run_ops tz [] p = p"
| "run_ops tz (c # cs) p = run_ops tz cs (run_op tz c p)"

text \<open>A store with no rows at all, and the faults given.\<close>

definition empty_pool :: "bool list \<Rightarrow> pool" where
  "empty_pool fs =
     \<lparr>water_intake = [], exercise_tracker = [], study_logs = [], shambhavi_kriya = [],
      typing_practice = [], constipation_tracker = [], tasks = [], user_goals = [],
      goal_achievements = [], user_streaks = Map.empty, faults = fs\<rparr>"

text \<open>The number of rejections the store still holds in wait.\<close>

definition pending :: "pool \<Rightarrow> nat" where
  "pending p = length (filter (\<lambda>failing. failing) (faults p))"

declare consistency_loop.simps [simp del]

section \<open>Example stores\<close>

text \<open>
  User 1 logged 1800, 1800, 2100 and 2200 ml of water on four days in a row and has one
  water goal, with the target given.
\<close>

definition water_example :: "real \<Rightarrow> pool" where
  "water_example target = (empty_pool [])
     \<lparr>water_intake :=
        [\<lparr>row_user = 1, row_date = 20089, row_value = 1800\<rparr>,
         \<lparr>row_user = 1, row_date = 20090, row_value = 1800\<rparr>,
         \<lparr>row_user = 1, row_date = 20091, row_value = 2100\<rparr>,
         \<lparr>row_user = 1, row_date = 20092, row_value = 2200\<rparr>],
      user_goals :=
        [\<lparr>goal_id = 1, goal_user_id = 1, goal_type = ''health'',
          goal_metric = ''water_intake'', goal_target = target,
          goal_status = ''active'', goal_created_at = 20080\<rparr>]\<rparr>"

section \<open>Notions used in the statements\<close>

text \<open>The value getCurrentMetricValue returns when its query is answered.\<close>

definition current_value :: "pool \<Rightarrow> real \<Rightarrow> nat \<Rightarrow> string \<Rightarrow> int" where
  "current_value p now userId metric =
     (let last30Days = now - 30 in
      if metric = ''water_intake'' then
        round_or_zero (sql_avg (map row_value (metric_since userId last30Days (water_intake p))))
      else if metric = ''exercise_steps'' then
        round_or_zero (sql_avg (map row_value
          (metric_since userId last30Days (exercise_tracker p))))
      else if metric = ''study_hours'' then
        round_or_zero (sql_avg (map row_value (metric_since userId last30Days (study_logs p))))
      else if metric = ''kriya_sessions'' then
        int (length (kriya_since userId last30Days (shambhavi_kriya p)))
      else if metric = ''typing_completion_rate'' then
        round_or_zero (sql_avg (map (\<lambda>r. flag_percent (flag_set r))
          (flag_since userId last30Days (typing_practice p))))
      else if metric = ''constipation_positive_rate'' then
        round_or_zero (sql_avg (map (\<lambda>r. flag_percent (flag_set r))
          (flag_since userId last30Days (constipation_tracker p))))
      else if metric = ''task_completion_rate'' then
        round_or_zero (sql_avg (map (\<lambda>r. flag_percent (task_completed r))
          (task_since userId last30Days (tasks p))))
      else 0)"

text \<open>The tables of metric rows: what a call leaves alone when no new data arrives.\<close>

definition metrics_of ::
  "pool \<Rightarrow> metric_row list \<times> metric_row list \<times> metric_row list \<times> kriya_row list
          \<times> flag_row list \<times> flag_row list \<times> task_row list" where
  "metrics_of p =
     (water_intake p, exercise_tracker p, study_logs p, shambhavi_kriya p,
      typing_practice p, constipation_tracker p, tasks p)"



text \<open>
  Every streak row has \<open>current_streak \<le> longest_streak\<close> and a longest streak that is
  not negative.
\<close>

definition streaks_consistent :: "pool \<Rightarrow> bool" where
  "streaks_consistent p =
     (\<forall>k r. user_streaks p k = Some r \<longrightarrow>
        current_streak r \<le> longest_streak r \<and> 0 \<le> longest_streak r)"

text \<open>
  A call propagates store failures: it ends with an error exactly when one of its
  queries was rejected, and it issues no query after a rejected one.
\<close>

definition propagates :: "pool \<Rightarrow> (error + 'a) \<times> pool \<Rightarrow> bool" where
  "propagates p m =
     (case m of
        (Inl e, p') \<Rightarrow> pending p = pending p' + 1
      | (Inr v, p') \<Rightarrow> pending p = pending p')"

text \<open>
  A call reports store failures: it never ends with an error; when one of its queries
  was rejected it returns \<open>{success: false, error: message}\<close>, and it issues no query
  after a rejected one.
\<close>

definition reports :: "string \<Rightarrow> pool \<Rightarrow> (error + 'a service_result) \<times> pool \<Rightarrow> bool" where
  "reports message p m =
     (case m of
        (Inl e, p') \<Rightarrow> False
      | (Inr (Failure msg), p') \<Rightarrow> msg = message \<and> pending p = pending p' + 1
      | (Inr (Success v), p') \<Rightarrow> pending p = pending p')"

text \<open>A streak table with one row: user 1 did the water activity on day 20089.\<close>

definition streak_example :: pool where
  "streak_example = (empty_pool [])
     \<lparr>user_streaks := [(1, ''water'') \<mapsto>
        \<lparr>current_streak = 1, longest_streak = 1, last_activity_date = Some 20089\<rparr>]\<rparr>"


section \<open>InsightRanker (services/analyticsService.js)\<close>

datatype severity = Critical | Warning | Info | Positive

datatype level = High | Medium | Low

record insight =
  in_type :: string
  in_category :: string
  in_message :: string
  in_severity :: severity
  in_actionable :: bool
  in_timestamp :: int

record recommendation =
  rc_type :: string
  rc_category :: string
  rc_message :: string
  rc_actionable :: bool
  rc_priority :: level
  rc_estimatedImpact :: level

text \<open>
  Severity, priority and impact are given as the literals the tables of the two sort
  functions list; every insight and recommendation the service builds carries one of
  them, and a timestamp (here in milliseconds).
\<close>

text \<open>
  \<open>array.sort(compare)\<close>: the sort of ECMAScript 2019 is stable, and for a comparator
  that is a total preorder every stable sort returns the same array; insertion sort
  stands for it. An element goes before the first one it does not come after
  (\<open>compare x y \<le> 0\<close>), and the elements are inserted from the last to the first.
\<close>

fun insort_by :: "('a \<Rightarrow> 'a \<Rightarrow> int) \<Rightarrow> 'a \<Rightarrow> 'a list \<Rightarrow> 'a list" where
  "insort_by compare x [] = [x]"
| "insort_by compare x (y # ys) =
     (if compare x y \<le> 0 then x # y # ys else y # insort_by compare x ys)"

definition js_sort :: "('a \<Rightarrow> 'a \<Rightarrow> int) \<Rightarrow> 'a list \<Rightarrow> 'a list" where
  "js_sort compare xs = foldr (insort_by compare) xs []"

fun severityOrder :: "severity \<Rightarrow> int" where
  "severityOrder Critical = 0"
| "severityOrder Warning = 1"
| "severityOrder Info = 2"
| "severityOrder Positive = 3"

text \<open>\<open>priorityOrder\<close> and \<open>impactOrder\<close> are the same table.\<close>

fun levelOrder :: "level \<Rightarrow> int" where
  "levelOrder High = 0"
| "levelOrder Medium = 1"
| "levelOrder Low = 2"

definition insight_compare :: "insight \<Rightarrow> insight \<Rightarrow> int" where
  "insight_compare a b =
     (let severityDiff = severityOrder (in_severity a) - severityOrder (in_severity b) in
      if severityDiff \<noteq> 0 then severityDiff
      else if in_actionable a \<and> \<not> in_actionable b then - 1
      else if \<not> in_actionable a \<and> in_actionable b then 1
      else in_timestamp b - in_timestamp a)"

definition sortInsightsBySeverity :: "insight list \<Rightarrow> insight list" where
  "sortInsightsBySeverity insights = js_sort insight_compare insights"

definition recommendation_compare :: "recommendation \<Rightarrow> recommendation \<Rightarrow> int" where
  "recommendation_compare a b =
     (let priorityDiff = levelOrder (rc_priority a) - levelOrder (rc_priority b) in
      if priorityDiff \<noteq> 0 then priorityDiff
      else
        let impactDiff = levelOrder (rc_estimatedImpact a) - levelOrder (rc_estimatedImpact b)
        in if impactDiff \<noteq> 0 then impactDiff
           else if rc_actionable a \<and> \<not> rc_actionable b then - 1
           else if \<not> rc_actionable a \<and> rc_actionable b then 1
           else 0)"

definition prioritizeRecommendations :: "recommendation list \<Rightarrow> recommendation list" where
  "prioritizeRecommendations recommendations = js_sort recommendation_compare recommendations"

text \<open>
  The sort keys of the specification, in lexicographic order: severity rank, actionable
  before not actionable, newest timestamp first; priority rank, impact rank, actionable
  before not actionable.
\<close>

definition insight_key :: "insight \<Rightarrow> int \<times> int \<times> int" where
  "insight_key i =
     (severityOrder (in_severity i), if in_actionable i then 0 else 1, - in_timestamp i)"

definition recommendation_key :: "recommendation \<Rightarrow> int \<times> int \<times> int" where
  "recommendation_key r =
     (levelOrder (rc_priority r), levelOrder (rc_estimatedImpact r),
      if rc_actionable r then 0 else 1)"

text \<open>Recommendations in the order of the ranker, the last two with equal keys.\<close>

definition ranked_example :: "recommendation list" where
  "ranked_example =
     [\<lparr>rc_type = ''health'', rc_category = ''water_intake'', rc_message = ''a'',
       rc_actionable = True, rc_priority = High, rc_estimatedImpact = High\<rparr>,
      \<lparr>rc_type = ''health'', rc_category = ''exercise'', rc_message = ''b'',
       rc_actionable = True, rc_priority = High, rc_estimatedImpact = Low\<rparr>,
      \<lparr>rc_type = ''education'', rc_category = ''study_hours'', rc_message = ''c'',
       rc_actionable = False, rc_priority = Medium, rc_estimatedImpact = High\<rparr>,
      \<lparr>rc_type = ''education'', rc_category = ''study_hours'', rc_message = ''d'',
       rc_actionable = False, rc_priority = Medium, rc_estimatedImpact = High\<rparr>]"

text \<open>Insights in the order of the ranker.\<close>

definition ranked_insights_example :: "insight list" where
  "ranked_insights_example =
     [\<lparr>in_type = ''health'', in_category = ''water_intake'', in_message = ''a'',
       in_severity = Critical, in_actionable = True, in_timestamp = 1735729200000\<rparr>,
      \<lparr>in_type = ''health'', in_category = ''exercise'', in_message = ''b'',
       in_severity = Warning, in_actionable = True, in_timestamp = 1735732800000\<rparr>,
      \<lparr>in_type = ''health'', in_category = ''exercise'', in_message = ''c'',
       in_severity = Warning, in_actionable = False, in_timestamp = 1735722000000\<rparr>,
      \<lparr>in_type = ''education'', in_category = ''study_hours'', in_message = ''d'',
       in_severity = Positive, in_actionable = False, in_timestamp = 1735725600000\<rparr>]"

section \<open>Properties of calculateTrend\<close>

lemmas fl_eval = fl_def binade_def halvings.simps doublings.simps pow2_def round_even_def
  js_add_def js_sub_def js_mul_def js_div_def js_round_def Let_def





lemma js_sum_from_foldl: "js_sum_from a xs = foldl (\<lambda>sum val. js_add sum val) a xs"
  by (induction xs arbitrary: a) simp_all

lemma avg_reduce_sum: "avg xs = js_div (reduce_sum xs) (of_nat (length xs))"
  by (simp add: avg_def reduce_sum_def js_sum_from_foldl)

text \<open>
  The model rounds as the doubles do: the relative change of 2000 to 1450 is
  \<open>-27.500000000000004\<close> and rounds to \<open>-28\<close>, where exact arithmetic has \<open>-27.5\<close>
  and \<open>-27\<close>; the change of the second example is \<open>10.499999999999988\<close> and rounds to 10.
\<close>

lemma calculateTrend_double_examples:
  "calculateTrend [2000, 1450] = \<lparr>trend = Decreasing, percentage = - 28\<rparr>"
  "calculateTrend [467, 467, 466, 516, 516, 515] = \<lparr>trend = Stable, percentage = 10\<rparr>"
  by (simp_all add: calculateTrend_def reduce_sum_def fl_eval)

text \<open>
  C1, as stated, at the series \<open>[-1, 5]\<close>: the first half averages \<open>-1\<close>, which is not
  zero, so the claim gives the percentage \<open>round ((5 - (-1)) / (-1) * 100) = -600\<close> and
  the trend decreasing; the code tests \<open>firstHalfAvg > 0\<close> and returns 0 and stable.
\<close>

theorem calculateTrend_negative_baseline_counterexample:
  "avg (take (2 div 2) [- 1, 5]) \<noteq> 0
   \<and> percent_change (avg (take (2 div 2) [- 1, 5])) (avg (drop (2 div 2) [- 1, 5])) = - 600
   \<and> calculateTrend [- 1, 5] = \<lparr>trend = Stable, percentage = 0\<rparr>"
  by (simp add: avg_def percent_change_def calculateTrend_def reduce_sum_def fl_eval)

text \<open>
  C1, amended: a series of fewer than two values gives insufficient data and 0;
  otherwise, with the split at \<open>\<lfloor>n / 2\<rfloor>\<close> (the midpoint element opens the second
  half), the percentage is the rounded relative change of the two means, in the double
  arithmetic of the code, or 0 when the mean of the first half is zero or negative, and
  the trend is increasing above 10, decreasing below -10 and stable otherwise.
\<close>

theorem calculateTrend_spec:
  "calculateTrend values =
     (if length values < 2 then \<lparr>trend = Insufficient_data, percentage = 0\<rparr>
      else
        let n = length values;
            a1 = avg (take (n div 2) values);
            a2 = avg (drop (n div 2) values);
            p = (if a1 \<le> 0 then 0 else percent_change a1 a2)
        in \<lparr>trend = classify p, percentage = p\<rparr>)"
  by (simp add: calculateTrend_def avg_reduce_sum classify_def percent_change_def
      Let_def not_less)

section \<open>Properties of calculateGoalStreak\<close>

lemma goal_streak_loop_keeps_current:
  "k < length dailyValues \<Longrightarrow>
   currentStreak (goal_streak_loop target dailyValues k s) = currentStreak s"
  by (induction k arbitrary: s) (simp_all add: Let_def)

text \<open>
  The loop assigns \<open>currentStreak\<close> only while \<open>i\<close> is the last index, where the
  running streak is 1 at most: the result is 1 if the most recent day meets the target
  and 0 otherwise, whatever the days before it hold.
\<close>

lemma goal_streak_current_at_most_one:
  "gs_currentStreak (goal_streak_of target dailyValues) =
     (if dailyValues \<noteq> [] \<and> dv_value (last dailyValues) \<ge> target then 1 else 0)"
proof (cases "length dailyValues")
  case 0
  then show ?thesis by (simp add: goal_streak_of_def)
next
  case (Suc n)
  then have ne: "dailyValues \<noteq> []" by auto
  then have l: "last dailyValues = dailyValues ! n" using Suc by (simp add: last_conv_nth)
  show ?thesis using Suc l ne
    by (simp add: goal_streak_of_def Let_def goal_streak_loop_keeps_current)
qed

text \<open>
  C2: for the daily values 1800, 1800, 2100, 2200 and the target 2000 the trailing run
  of days that meet the target has length 2, and the claim gives currentStreak = 2.
  The function, run on a store that holds these four days and the goal, returns
  currentStreak = 1 (and longestStreak = 2).
\<close>

theorem calculateGoalStreak_example:
  "trailing_run 2000
     (daily_of_rows (metric_since 1 (20093 - 30) (water_intake (water_example 2000)))) = 2
   \<and> fst (calculateGoalStreak (water_example 2000) 20093 1 ''water_intake'' ''health'') =
       Inr \<lparr>gs_currentStreak = 1, gs_longestStreak = 2, gs_lastAchievedDate = Some 20092\<rparr>"
  by (simp add: calculateGoalStreak_def water_example_def empty_pool_def pool_query_def
      and_then_def newest_goal_def getDailyMetricValues_def metric_since_def day_of_def
      daily_of_rows_def order_by_date_def goal_streak_of_def trailing_run_def
      numeral_eq_Suc Let_def)

section \<open>Properties of calculateStudyConsistencyPatterns\<close>

lemma consistency_loop_example:
  "consistency_loop [20089, 20090, 20091, 20093, 20094] 1
     \<lparr>cv_streaks = [], cv_gaps = [], cv_currentStreak = 1, cv_longestStreak = 1\<rparr>
   = \<lparr>cv_streaks = [3], cv_gaps = [1], cv_currentStreak = 2, cv_longestStreak = 3\<rparr>"
  by (simp add: consistency_loop.simps)

lemma rounded_mean_examples: "rounded_mean [1] = 1" "rounded_mean [3, 2] = 3"
  by (simp_all add: rounded_mean_def reduce_sum_def fl_eval)

lemma consistency_of_example:
  "\<exists>res pt. consistency_of now startDate [20089, 20090, 20091, 20093, 20094] = res
      \<and> cr_studyDays res = 5 \<and> cr_longestStreak res = 3
      \<and> cr_averageGapBetweenSessions res = 1
      \<and> cr_patterns res = Some pt
      \<and> totalStreaks pt = 2 \<and> totalGaps pt = 1 \<and> longestGap pt = 1"
  by (simp add: consistency_of_def Let_def consistency_loop_example [simplified]
      rounded_mean_examples max_of_def)

text \<open>
  C5: with study logs on 1, 2, 3, 5 and 6 January 2025 (days 20089 to 20094 without
  20092, any hours) and a window that starts at any instant of 1 January, the function
  returns longestStreak = 3, one gap, of size 1, averageGapBetweenSessions = 1 and
  patterns.totalStreaks = 2, at any instant of the call; for a user without study logs
  in the window it returns the result whose studyDays, consistencyRate, longestStreak,
  currentStreak and averageGapBetweenSessions are all 0, and no error.
\<close>

theorem calculateStudyConsistencyPatterns_examples:
  "(day_of startDate = 20089 \<longrightarrow>
      (\<exists>res pt.
         fst (calculateStudyConsistencyPatterns
               (p\<lparr>study_logs :=
                    [\<lparr>row_user = 1, row_date = 20089, row_value = h1\<rparr>,
                     \<lparr>row_user = 1, row_date = 20090, row_value = h2\<rparr>,
                     \<lparr>row_user = 1, row_date = 20091, row_value = h3\<rparr>,
                     \<lparr>row_user = 1, row_date = 20093, row_value = h4\<rparr>,
                     \<lparr>row_user = 1, row_date = 20094, row_value = h5\<rparr>],
                  faults := []\<rparr>) now 1 startDate) = Inr res
         \<and> cr_studyDays res = 5 \<and> cr_longestStreak res = 3
         \<and> cr_averageGapBetweenSessions res = 1
         \<and> cr_patterns res = Some pt
         \<and> totalStreaks pt = 2 \<and> totalGaps pt = 1 \<and> longestGap pt = 1))
   \<and> (metric_since userId since (study_logs q) = [] \<longrightarrow>
        fst (calculateStudyConsistencyPatterns (q\<lparr>faults := []\<rparr>) now userId since) =
          Inr \<lparr>cr_totalDays = \<lceil>fl (now - since)\<rceil>, cr_studyDays = 0,
                cr_consistencyRate = Some 0, cr_longestStreak = 0, cr_currentStreak = 0,
                cr_averageGapBetweenSessions = 0, cr_patterns = None\<rparr>)"
proof (intro conjI impI)
  assume d: "day_of startDate = 20089"
  have rows: "map row_date (order_by_date (metric_since 1 startDate
               [\<lparr>row_user = 1, row_date = 20089, row_value = h1\<rparr>,
                \<lparr>row_user = 1, row_date = 20090, row_value = h2\<rparr>,
                \<lparr>row_user = 1, row_date = 20091, row_value = h3\<rparr>,
                \<lparr>row_user = 1, row_date = 20093, row_value = h4\<rparr>,
                \<lparr>row_user = 1, row_date = 20094, row_value = h5\<rparr>]))
             = [20089, 20090, 20091, 20093, 20094]"
    by (simp add: metric_since_def order_by_date_def d)
  have "fst (calculateStudyConsistencyPatterns
               (p\<lparr>study_logs :=
                    [\<lparr>row_user = 1, row_date = 20089, row_value = h1\<rparr>,
                     \<lparr>row_user = 1, row_date = 20090, row_value = h2\<rparr>,
                     \<lparr>row_user = 1, row_date = 20091, row_value = h3\<rparr>,
                     \<lparr>row_user = 1, row_date = 20093, row_value = h4\<rparr>,
                     \<lparr>row_user = 1, row_date = 20094, row_value = h5\<rparr>],
                  faults := []\<rparr>) now 1 startDate)
        = Inr (consistency_of now startDate [20089, 20090, 20091, 20093, 20094])"
    by (simp add: calculateStudyConsistencyPatterns_def pool_query_def and_then_def
        rows [simplified])
  with consistency_of_example [of now startDate]
  show "\<exists>res pt.
         fst (calculateStudyConsistencyPatterns
               (p\<lparr>study_logs :=
                    [\<lparr>row_user = 1, row_date = 20089, row_value = h1\<rparr>,
                     \<lparr>row_user = 1, row_date = 20090, row_value = h2\<rparr>,
                     \<lparr>row_user = 1, row_date = 20091, row_value = h3\<rparr>,
                     \<lparr>row_user = 1, row_date = 20093, row_value = h4\<rparr>,
                     \<lparr>row_user = 1, row_date = 20094, row_value = h5\<rparr>],
                  faults := []\<rparr>) now 1 startDate) = Inr res
         \<and> cr_studyDays res = 5 \<and> cr_longestStreak res = 3
         \<and> cr_averageGapBetweenSessions res = 1
         \<and> cr_patterns res = Some pt
         \<and> totalStreaks pt = 2 \<and> totalGaps pt = 1 \<and> longestGap pt = 1"
    by metis
next
  assume "metric_since userId since (study_logs q) = []"
  then show "fst (calculateStudyConsistencyPatterns (q\<lparr>faults := []\<rparr>) now userId since) =
          Inr \<lparr>cr_totalDays = \<lceil>fl (now - since)\<rceil>, cr_studyDays = 0,
                cr_consistencyRate = Some 0, cr_longestStreak = 0, cr_currentStreak = 0,
                cr_averageGapBetweenSessions = 0, cr_patterns = None\<rparr>"
    by (simp add: calculateStudyConsistencyPatterns_def pool_query_def and_then_def
        order_by_date_def consistency_of_def Let_def)
qed

text \<open>
  The window opens at noon of 1 January; the other store holds study logs of user 1
  only, of which user 2 has none in any window.
\<close>

theorem calculateStudyConsistencyPatterns_examples_witness:
  "day_of (40179 / 2) = 20089
   \<and> (\<exists>res pt.
         fst (calculateStudyConsistencyPatterns
               ((empty_pool [])\<lparr>study_logs :=
                    [\<lparr>row_user = 1, row_date = 20089, row_value = 3\<rparr>,
                     \<lparr>row_user = 1, row_date = 20090, row_value = 2\<rparr>,
                     \<lparr>row_user = 1, row_date = 20091, row_value = 2\<rparr>,
                     \<lparr>row_user = 1, row_date = 20093, row_value = 4\<rparr>,
                     \<lparr>row_user = 1, row_date = 20094, row_value = 3\<rparr>],
                  faults := []\<rparr>) 20095 1 (40179 / 2)) = Inr res
         \<and> cr_studyDays res = 5 \<and> cr_longestStreak res = 3
         \<and> cr_averageGapBetweenSessions res = 1
         \<and> cr_patterns res = Some pt
         \<and> totalStreaks pt = 2 \<and> totalGaps pt = 1 \<and> longestGap pt = 1)
   \<and> metric_since 2 (40179 / 2)
        (study_logs ((empty_pool [])\<lparr>study_logs :=
           [\<lparr>row_user = 1, row_date = 20089, row_value = 3\<rparr>]\<rparr>)) = []
   \<and> fst (calculateStudyConsistencyPatterns
            ((empty_pool [])\<lparr>study_logs :=
               [\<lparr>row_user = 1, row_date = 20089, row_value = 3\<rparr>], faults := []\<rparr>)
            20095 2 (40179 / 2)) =
       Inr \<lparr>cr_totalDays = \<lceil>fl (20095 - 40179 / 2)\<rceil>, cr_studyDays = 0,
             cr_consistencyRate = Some 0, cr_longestStreak = 0, cr_currentStreak = 0,
             cr_averageGapBetweenSessions = 0, cr_patterns = None\<rparr>"
proof -
  have d: "day_of (40179 / 2) = 20089" by (simp add: day_of_def)
  have e: "metric_since 2 (40179 / 2)
        (study_logs ((empty_pool [])\<lparr>study_logs :=
           [\<lparr>row_user = 1, row_date = 20089, row_value = 3\<rparr>]\<rparr>)) = []"
    by (simp add: metric_since_def)
  note t = calculateStudyConsistencyPatterns_examples
    [where startDate = "40179 / 2" and p = "empty_pool []" and ?h1.0 = 3 and ?h2.0 = 2
       and ?h3.0 = 2 and ?h4.0 = 4 and ?h5.0 = 3 and now = 20095 and userId = 2
       and since = "40179 / 2"
       and q = "(empty_pool [])\<lparr>study_logs :=
                 [\<lparr>row_user = 1, row_date = 20089, row_value = 3\<rparr>]\<rparr>"]
  note a = t [THEN conjunct1, THEN mp, OF d]
  note b = t [THEN conjunct2, THEN mp, OF e]
  show ?thesis
    apply (intro conjI)
       apply (rule d)
      apply (rule a)
     apply (rule e)
    apply (rule b)
    done
qed

section \<open>Properties of the streak service\<close>

lemmas streak_defs = updateUserStreak_def updateUserStreak_body_def getUserStreak_def
  resetUserStreak_def try_catch_def and_then_def pool_query_def select_streak_def
  update_streak_def insert_streak_def update_current_streak_def

lemma run_op_longest:
  "user_streaks p k = Some r \<Longrightarrow>
   \<exists>r'. user_streaks (run_op tz c p) k = Some r' \<and> longest_streak r \<le> longest_streak r'"
  by (cases c)
     (auto simp: streak_defs Let_def split: list.splits option.splits if_splits)

text \<open>
  C7: whatever calls of updateUserStreak, resetUserStreak and getUserStreak follow, on
  any keys, in any time zone of the server and with any store failures among them, a
  streak row stays in the table and its longest_streak does not decrease.
\<close>

theorem longest_streak_monotonic:
  "user_streaks p k = Some r \<Longrightarrow>
   \<exists>r'. user_streaks (run_ops tz ops p) k = Some r' \<and> longest_streak r \<le> longest_streak r'"
proof (induction ops arbitrary: p r)
  case Nil
  then show ?case by simp
next
  case (Cons c ops)
  from run_op_longest [OF Cons.prems, of tz c] obtain r1 where
    r1: "user_streaks (run_op tz c p) k = Some r1" "longest_streak r \<le> longest_streak r1"
    by blast
  from Cons.IH [OF r1(1)] obtain r' where
    "user_streaks (run_ops tz ops (run_op tz c p)) k = Some r'"
    "longest_streak r1 \<le> longest_streak r'"
    by blast
  with r1 show ?case by auto
qed

theorem longest_streak_monotonic_witness:
  "user_streaks streak_example (1, ''water'') =
     Some \<lparr>current_streak = 1, longest_streak = 1, last_activity_date = Some 20089\<rparr>
   \<and> (\<exists>r'. user_streaks
              (run_ops 0 [Update_streak 1 ''water'' 20090 True, Reset_streak 1 ''water'',
                          Update_streak 1 ''water'' 20095 True] streak_example)
              (1, ''water'') = Some r'
          \<and> 1 \<le> longest_streak r')"
proof -
  have row: "user_streaks streak_example (1, ''water'') =
     Some \<lparr>current_streak = 1, longest_streak = 1, last_activity_date = Some 20089\<rparr>"
    by (simp add: streak_example_def empty_pool_def)
  from longest_streak_monotonic [OF row] obtain r' where
    "user_streaks
       (run_ops 0 [Update_streak 1 ''water'' 20090 True, Reset_streak 1 ''water'',
                   Update_streak 1 ''water'' 20095 True] streak_example)
       (1, ''water'') = Some r'"
    and "longest_streak
           \<lparr>current_streak = 1, longest_streak = 1, last_activity_date = Some 20089\<rparr>
         \<le> longest_streak r'"
    by blast
  moreover from this(2) have "1 \<le> longest_streak r'" by simp
  ultimately show ?thesis using row by blast
qed

lemma run_op_row_consistent:
  assumes "\<And>r. user_streaks p k = Some r \<Longrightarrow>
             current_streak r \<le> longest_streak r \<and> 0 \<le> longest_streak r"
    and "user_streaks (run_op tz c p) k = Some r'"
  shows "current_streak r' \<le> longest_streak r' \<and> 0 \<le> longest_streak r'"
proof (cases c)
  case (Update_streak userId activityType date completed)
  show ?thesis
  proof (cases "k = (userId, activityType)")
    case True
    then show ?thesis using assms Update_streak
      by (cases "user_streaks p k")
        (auto simp: streak_defs Let_def split: list.splits option.splits if_splits)
  next
    case False
    then have "user_streaks (run_op tz c p) k = user_streaks p k" using Update_streak
      by (auto simp: streak_defs Let_def split: list.splits option.splits if_splits)
    then show ?thesis using assms by simp
  qed
next
  case (Reset_streak userId activityType)
  show ?thesis
  proof (cases "k = (userId, activityType)")
    case True
    then show ?thesis using assms Reset_streak
      by (cases "user_streaks p k")
        (auto simp: streak_defs Let_def split: list.splits option.splits if_splits)
  next
    case False
    then have "user_streaks (run_op tz c p) k = user_streaks p k" using Reset_streak
      by (auto simp: streak_defs Let_def split: list.splits option.splits if_splits)
    then show ?thesis using assms by simp
  qed
next
  case (Get_streak userId activityType)
  then have "user_streaks (run_op tz c p) k = user_streaks p k"
    by (auto simp: streak_defs Let_def split: list.splits option.splits if_splits)
  then show ?thesis using assms by simp
qed

lemma run_op_consistent: "streaks_consistent p \<Longrightarrow> streaks_consistent (run_op tz c p)"
  unfolding streaks_consistent_def using run_op_row_consistent by blast

lemma run_ops_consistent:
  "streaks_consistent p \<Longrightarrow> streaks_consistent (run_ops tz ops p)"
  by (induction ops arbitrary: p) (simp_all add: run_op_consistent)

lemma activity_day_east: "0 \<le> tz \<Longrightarrow> tz < 1 \<Longrightarrow> activity_day tz date = date"
  unfolding activity_day_def day_of_def by linarith

lemma activity_day_west: "- 1 \<le> tz \<Longrightarrow> tz < 0 \<Longrightarrow> activity_day tz date = date - 1"
  unfolding activity_day_def day_of_def by linarith

text \<open>
  On a server whose clock is at UTC or ahead of it, a report for the day the row already
  holds leaves \<open>current_streak\<close> and \<open>longest_streak\<close> of every row the service has
  written as they are.
\<close>

lemma same_day_update_east:
  assumes "0 \<le> tz" and "tz < 1"
    and "user_streaks p (userId, activityType) = Some r"
    and "last_activity_date r = Some date"
    and "current_streak r \<le> longest_streak r"
  shows "\<exists>r'. user_streaks (snd (updateUserStreak p tz userId activityType date True))
                 (userId, activityType) = Some r'
           \<and> current_streak r' = current_streak r \<and> longest_streak r' = longest_streak r"
  using assms(3-5) activity_day_east [OF assms(1,2), of date]
  by (auto simp: streak_defs Let_def split: list.splits option.splits if_splits)

text \<open>
  On a server behind UTC the day read from the report is the day before: the same-day
  report counts as a gap, and \<open>current_streak\<close> becomes 1 whatever it was.
\<close>

lemma same_day_update_west:
  assumes "- 1 \<le> tz" and "tz < 0"
    and "user_streaks p (userId, activityType) = Some r"
    and "last_activity_date r = Some date"
    and "faults p = []"
  shows "\<exists>r'. user_streaks (snd (updateUserStreak p tz userId activityType date True))
                 (userId, activityType) = Some r'
           \<and> current_streak r' = 1"
  using assms(3-5) activity_day_west [OF assms(1,2), of date]
  by (auto simp: streak_defs Let_def split: list.splits option.splits if_splits)

lemma reset_example:
  "user_streaks (run_ops (- 5 / 24) [Update_streak 1 ''water'' 20089 True,
                                    Reset_streak 1 ''water''] (empty_pool []))
     (1, ''water'') =
   Some \<lparr>current_streak = 0, longest_streak = 1, last_activity_date = Some 20089\<rparr>"
  by (simp add: streak_defs empty_pool_def activity_day_def day_of_def Let_def)

text \<open>
  C10, on a server five hours behind UTC: user 1 reports the water activity for day
  20089 and the streak is reset, which leaves the row with \<open>current_streak = 0\<close> and
  day 20089 as its \<open>last_activity_date\<close>; a report for the same day 20089 with
  completed = true then sets \<open>current_streak\<close> to 1, where the claim has it unchanged.
\<close>

theorem same_day_update_behind_utc:
  "user_streaks (run_ops (- 5 / 24) [Update_streak 1 ''water'' 20089 True,
                                    Reset_streak 1 ''water''] (empty_pool []))
     (1, ''water'') =
   Some \<lparr>current_streak = 0, longest_streak = 1, last_activity_date = Some 20089\<rparr>
   \<and> user_streaks
       (snd (updateUserStreak
               (run_ops (- 5 / 24) [Update_streak 1 ''water'' 20089 True,
                                    Reset_streak 1 ''water''] (empty_pool []))
               (- 5 / 24) 1 ''water'' 20089 True))
       (1, ''water'') =
     Some \<lparr>current_streak = 1, longest_streak = 1, last_activity_date = Some 20089\<rparr>"
  by (simp add: streak_defs empty_pool_def activity_day_def day_of_def Let_def)

section \<open>Store failures\<close>

lemma propagates_query:
  assumes run: "\<And>q. faults (snd (run q)) = faults q"
  shows "propagates p (pool_query p run)"
proof (cases "faults p")
  case Nil
  obtain r p' where rp: "run p = (r, p')" by (cases "run p")
  with run [of p] have "faults p' = faults p" by simp
  with Nil rp show ?thesis by (simp add: propagates_def pool_query_def pending_def)
next
  case (Cons failing rest)
  obtain r p' where rp: "run (p\<lparr>faults := rest\<rparr>) = (r, p')"
    by (cases "run (p\<lparr>faults := rest\<rparr>)")
  with run [of "p\<lparr>faults := rest\<rparr>"] have "faults p' = rest" by simp
  with Cons rp show ?thesis by (simp add: propagates_def pool_query_def pending_def)
qed

lemma propagates_return: "propagates p (Inr v, p)"
  by (simp add: propagates_def)

lemma propagates_if:
  "propagates p a \<Longrightarrow> propagates p b \<Longrightarrow> propagates p (if c then a else b)"
  by simp

lemma propagates_case_option:
  "propagates p a \<Longrightarrow> (\<And>x. propagates p (b x)) \<Longrightarrow>
   propagates p (case v of None \<Rightarrow> a | Some x \<Rightarrow> b x)"
  by (cases v) simp_all

lemma propagates_case_list:
  "propagates p a \<Longrightarrow> (\<And>x xs. propagates p (b x xs)) \<Longrightarrow>
   propagates p (case v of [] \<Rightarrow> a | x # xs \<Rightarrow> b x xs)"
  by (cases v) simp_all

lemma propagates_read: "propagates p (pool_query p (\<lambda>q. (f q, q)))"
  by (rule propagates_query) simp

lemma propagates_and_then:
  "propagates p m \<Longrightarrow> (\<And>a q. propagates q (rest a q)) \<Longrightarrow> propagates p (and_then m rest)"
proof -
  assume m: "propagates p m" and rest: "\<And>a q. propagates q (rest a q)"
  obtain r p1 where mr: "m = (r, p1)" by (cases m)
  show ?thesis
  proof (cases r)
    case (Inl e)
    then show ?thesis using m mr by (simp add: and_then_def propagates_def)
  next
    case (Inr a)
    obtain r2 p2 where r2: "rest a p1 = (r2, p2)" by (cases "rest a p1")
    have "pending p = pending p1" using m mr Inr by (simp add: propagates_def)
    moreover have "propagates p1 (r2, p2)" using rest [of p1 a] r2 by simp
    ultimately show ?thesis using mr Inr r2
      by (cases r2) (simp_all add: and_then_def propagates_def)
  qed
qed

lemmas propagates_intros = propagates_if propagates_case_option propagates_case_list
  propagates_and_then propagates_read propagates_return

lemma propagates_getCurrentMetricValue:
  "propagates p (getCurrentMetricValue p now userId metric type)"
  unfolding getCurrentMetricValue_def Let_def by (intro propagates_intros)

lemma propagates_getGoalTrend: "propagates p (getGoalTrend p now userId metric type)"
  unfolding getGoalTrend_def Let_def by (intro propagates_intros)

lemma propagates_getDailyMetricValues:
  "propagates p (getDailyMetricValues p now userId metric days)"
  unfolding getDailyMetricValues_def Let_def by (intro propagates_intros)

lemma propagates_calculateDetailedGoalProgress:
  "propagates p (calculateDetailedGoalProgress p now userId g)"
  unfolding calculateDetailedGoalProgress_def Let_def
  by (intro propagates_intros propagates_getCurrentMetricValue propagates_getGoalTrend)

lemma propagates_calculateGoalProgress:
  "propagates p (calculateGoalProgress p userId metric currentValue)"
  unfolding calculateGoalProgress_def Let_def by (intro propagates_intros)

lemma propagates_update_goal_status:
  "propagates p (pool_query p (update_goal_status st gid))"
  by (rule propagates_query) (simp add: update_goal_status_def)

lemma propagates_recordGoalAchievement:
  "propagates p (recordGoalAchievement p now userId goalId achievedValue)"
  unfolding recordGoalAchievement_def by (rule propagates_query) simp

lemma propagates_achievements_loop:
  "propagates p (achievements_loop now userId rows achievedGoals p)"
proof (induction rows arbitrary: achievedGoals p)
  case Nil
  show ?case by (simp add: propagates_return)
next
  case (Cons g rows)
  show ?case
    unfolding achievements_loop.simps
    by (intro propagates_intros propagates_getCurrentMetricValue
        propagates_update_goal_status propagates_recordGoalAchievement Cons.IH)
qed

lemma propagates_checkGoalAchievements: "propagates p (checkGoalAchievements p now userId)"
  unfolding checkGoalAchievements_def
  by (intro propagates_intros propagates_achievements_loop)

lemma propagates_calculateGoalStreak:
  "propagates p (calculateGoalStreak p now userId metric type)"
  unfolding calculateGoalStreak_def
  by (intro propagates_intros propagates_getDailyMetricValues)

lemma propagates_calculateStudyConsistencyPatterns:
  "propagates p (calculateStudyConsistencyPatterns p now userId startDate)"
  unfolding calculateStudyConsistencyPatterns_def by (intro propagates_intros)

lemma reports_try_catch: "propagates p body \<Longrightarrow> reports message p (try_catch body message)"
  by (cases body) (auto simp: propagates_def reports_def try_catch_def split: sum.splits)

lemma propagates_select_streak:
  "propagates p (pool_query p (select_streak userId activityType))"
  by (rule propagates_query) (simp add: select_streak_def)

lemma propagates_update_streak:
  "propagates p (pool_query p (update_streak userId activityType cs ls date))"
  by (rule propagates_query) (simp add: update_streak_def split: option.splits)

lemma propagates_insert_streak:
  "propagates p (pool_query p (insert_streak userId activityType cs ls date))"
  by (rule propagates_query) (simp add: insert_streak_def)

lemma propagates_update_current_streak:
  "propagates p (pool_query p (update_current_streak userId activityType cs))"
  by (rule propagates_query) (simp add: update_current_streak_def split: option.splits)

lemmas propagates_streak_queries = propagates_select_streak propagates_update_streak
  propagates_insert_streak propagates_update_current_streak

lemma propagates_updateUserStreak_body:
  "propagates p (updateUserStreak_body p tz userId activityType date completed)"
  unfolding updateUserStreak_body_def Let_def
  by (intro propagates_intros propagates_streak_queries)

lemma reports_updateUserStreak:
  "reports ''Failed to update streak'' p
     (updateUserStreak p tz userId activityType date completed)"
  unfolding updateUserStreak_def
  by (intro reports_try_catch propagates_updateUserStreak_body)

lemma reports_getUserStreak:
  "reports ''Failed to get streak'' p (getUserStreak p userId activityType)"
  unfolding getUserStreak_def
  by (intro reports_try_catch propagates_intros propagates_streak_queries)

lemma reports_resetUserStreak:
  "reports ''Failed to reset streak'' p (resetUserStreak p userId activityType)"
  unfolding resetUserStreak_def
  by (intro reports_try_catch propagates_intros propagates_streak_queries)

text \<open>
  C9, as stated, on a store that rejects the next query: each of the three streak
  operations returns the normal result \<open>{success: false, error: ...}\<close>; none of them
  ends with the error.
\<close>

theorem streak_operations_catch_counterexample:
  "fst (updateUserStreak (empty_pool [True]) 0 1 ''water'' 20089 True)
     = Inr (Failure ''Failed to update streak'')
   \<and> fst (getUserStreak (empty_pool [True]) 1 ''water'')
     = Inr (Failure ''Failed to get streak'')
   \<and> fst (resetUserStreak (empty_pool [True]) 1 ''water'')
     = Inr (Failure ''Failed to reset streak'')"
  by (simp add: streak_defs empty_pool_def)

text \<open>
  C9, amended: in the operations of the analytics service (checkGoalAchievements,
  calculateGoalStreak, calculateDetailedGoalProgress, calculateGoalProgress,
  calculateStudyConsistencyPatterns) a rejected query ends the call with that error,
  with no retry and no default result; the streak operations updateUserStreak,
  getUserStreak and resetUserStreak catch it and return \<open>{success: false, error}\<close>
  with their own message, also without retry.
\<close>

theorem store_failures:
  "propagates p (checkGoalAchievements p now userId)
   \<and> propagates p (calculateGoalStreak p now userId metric type)
   \<and> propagates p (calculateDetailedGoalProgress p now userId g)
   \<and> propagates p (calculateGoalProgress p userId metric currentValue)
   \<and> propagates p (calculateStudyConsistencyPatterns p now userId startDate)
   \<and> reports ''Failed to update streak'' p
       (updateUserStreak p tz userId activityType date completed)
   \<and> reports ''Failed to get streak'' p (getUserStreak p userId activityType)
   \<and> reports ''Failed to reset streak'' p (resetUserStreak p userId activityType)"
  by (intro conjI propagates_checkGoalAchievements propagates_calculateGoalStreak
      propagates_calculateDetailedGoalProgress propagates_calculateGoalProgress
      propagates_calculateStudyConsistencyPatterns reports_updateUserStreak
      reports_getUserStreak reports_resetUserStreak)

section \<open>Properties of the goal tracker\<close>





lemma current_value_cong:
  "metrics_of p1 = metrics_of p \<Longrightarrow>
   current_value p1 now userId metric = current_value p now userId metric"
  by (simp add: current_value_def metrics_of_def Let_def cong: if_cong)

lemma pool_query_read:
  "pool_query p (\<lambda>q. (f q, q)) = (Inr v, p1) \<Longrightarrow>
   v = f p1 \<and> user_goals p1 = user_goals p \<and> metrics_of p1 = metrics_of p"
  by (auto simp: pool_query_def metrics_of_def split: list.splits if_splits)

lemma getCurrentMetricValue_result:
  assumes "getCurrentMetricValue p now userId metric type = (Inr v, p1)"
  shows "v = current_value p now userId metric \<and> user_goals p1 = user_goals p
         \<and> metrics_of p1 = metrics_of p"
proof (cases "faults p")
  case Nil
  with assms show ?thesis
    by (auto simp: getCurrentMetricValue_def current_value_def Let_def and_then_def
        pool_query_def metrics_of_def split: if_splits)
next
  case (Cons failing rest)
  with assms show ?thesis
    by (cases failing)
       (auto simp: getCurrentMetricValue_def current_value_def Let_def and_then_def
          pool_query_def metrics_of_def split: if_splits)
qed

lemma getCurrentMetricValue_healthy:
  "faults p = [] \<Longrightarrow>
   getCurrentMetricValue p now userId metric type = (Inr (current_value p now userId metric), p)"
  by (simp add: getCurrentMetricValue_def current_value_def Let_def and_then_def pool_query_def)


lemma pool_query_write_goals:
  "pool_query p (update_goal_status st gid) = (Inr u, p1) \<Longrightarrow>
   user_goals p1 = map (\<lambda>g. if goal_id g = gid then g\<lparr>goal_status := st\<rparr> else g) (user_goals p)
   \<and> metrics_of p1 = metrics_of p"
  by (auto simp: pool_query_def update_goal_status_def metrics_of_def
      split: list.splits if_splits)

lemma recordGoalAchievement_result:
  "recordGoalAchievement p now userId goalId v = (Inr u, p1) \<Longrightarrow>
   user_goals p1 = user_goals p \<and> metrics_of p1 = metrics_of p"
  by (auto simp: recordGoalAchievement_def pool_query_def metrics_of_def
      split: list.splits if_splits)

lemma achievements_loop_leaves:
  "achievements_loop now userId rows acc p = (Inr out, p') \<Longrightarrow>
   metrics_of p' = metrics_of p
   \<and> (\<forall>g \<in> set (user_goals p'). goal_status g = ''active'' \<longrightarrow>
         g \<in> set (user_goals p)
         \<and> (\<forall>r \<in> set rows. goal_id r = goal_id g \<longrightarrow>
               of_int (current_value p now userId (goal_metric r)) < goal_target r))"
proof (induction rows arbitrary: acc p)
  case Nil
  then show ?case by simp
next
  case (Cons g rows)
  from Cons.prems obtain v p1 where
    v: "getCurrentMetricValue p now userId (goal_metric g) (goal_type g) = (Inr v, p1)"
    by (auto simp: and_then_def split: prod.splits sum.splits)
  from getCurrentMetricValue_result [OF v] have
    v_eq: "v = current_value p now userId (goal_metric g)"
    and g1: "user_goals p1 = user_goals p" and m1: "metrics_of p1 = metrics_of p" by auto
  show ?case
  proof (cases "of_int v \<ge> goal_target g")
    case False
    with Cons.prems v have "achievements_loop now userId rows acc p1 = (Inr out, p')"
      by (simp add: and_then_def)
    note ih = Cons.IH [OF this]
    have A: "metrics_of p' = metrics_of p" using ih m1 by simp
    have B: "x \<in> set (user_goals p)
             \<and> (\<forall>r \<in> set (g # rows). goal_id r = goal_id x \<longrightarrow>
                   of_int (current_value p now userId (goal_metric r)) < goal_target r)"
      if x: "x \<in> set (user_goals p')" "goal_status x = ''active''" for x
    proof -
      from ih x have x1: "x \<in> set (user_goals p1)"
        and low: "\<forall>r \<in> set rows. goal_id r = goal_id x \<longrightarrow>
                    of_int (current_value p1 now userId (goal_metric r)) < goal_target r"
        by auto
      from low have "\<forall>r \<in> set rows. goal_id r = goal_id x \<longrightarrow>
                    of_int (current_value p now userId (goal_metric r)) < goal_target r"
        by (simp add: current_value_cong [OF m1])
      moreover have "of_int (current_value p now userId (goal_metric g)) < goal_target g"
        using False v_eq by simp
      ultimately show ?thesis using x1 g1 by auto
    qed
    from A B show ?thesis by blast
  next
    case True
    with Cons.prems v obtain u p2 where
      p2: "pool_query p1 (update_goal_status ''completed'' (goal_id g)) = (Inr u, p2)"
      by (auto simp: and_then_def split: prod.splits sum.splits)
    with Cons.prems v True obtain u' p3 where
      p3: "recordGoalAchievement p2 now userId (goal_id g) v = (Inr u', p3)"
      by (auto simp: and_then_def split: prod.splits sum.splits)
    with Cons.prems v True p2 have
      rest: "achievements_loop now userId rows
               (acc @ [\<lparr>ag_goal = g, ag_achievedValue = v, ag_achievedAt = now\<rparr>]) p3
             = (Inr out, p')"
      by (simp add: and_then_def)
    from pool_query_write_goals [OF p2] recordGoalAchievement_result [OF p3] g1 m1 have
      g3: "user_goals p3 =
             map (\<lambda>x. if goal_id x = goal_id g then x\<lparr>goal_status := ''completed''\<rparr> else x)
               (user_goals p)"
      and m3: "metrics_of p3 = metrics_of p" by auto
    have active: "x \<in> set (user_goals p) \<and> goal_id x \<noteq> goal_id g"
      if "x \<in> set (user_goals p3)" "goal_status x = ''active''" for x
      using that unfolding g3 by (auto split: if_splits)
    note ih = Cons.IH [OF rest]
    have A: "metrics_of p' = metrics_of p" using ih m3 by simp
    have B: "x \<in> set (user_goals p)
             \<and> (\<forall>r \<in> set (g # rows). goal_id r = goal_id x \<longrightarrow>
                   of_int (current_value p now userId (goal_metric r)) < goal_target r)"
      if x: "x \<in> set (user_goals p')" "goal_status x = ''active''" for x
    proof -
      from ih x have x3: "x \<in> set (user_goals p3)"
        and low: "\<forall>r \<in> set rows. goal_id r = goal_id x \<longrightarrow>
                    of_int (current_value p3 now userId (goal_metric r)) < goal_target r"
        by auto
      from active [OF x3 x(2)] have xp: "x \<in> set (user_goals p)"
        and ne: "goal_id x \<noteq> goal_id g" by auto
      from low have "\<forall>r \<in> set rows. goal_id r = goal_id x \<longrightarrow>
                    of_int (current_value p now userId (goal_metric r)) < goal_target r"
        by (simp add: current_value_cong [OF m3])
      with xp ne show ?thesis by auto
    qed
    from A B show ?thesis by blast
  qed
qed

lemma achievements_loop_nothing:
  "faults p = [] \<Longrightarrow>
   (\<forall>r \<in> set rows. of_int (current_value p now userId (goal_metric r)) < goal_target r) \<Longrightarrow>
   achievements_loop now userId rows acc p = (Inr acc, p)"
  by (induction rows) (auto simp: getCurrentMetricValue_healthy and_then_def)

text \<open>
  C3: when a call of checkGoalAchievements has returned (having marked each goal whose
  current value reached its target as completed and recorded its achievement), the same
  call repeated at once on the store it left, with the same metric rows and a healthy
  store, returns the empty list and changes nothing: the goals still active are those
  the first call found below their target.
\<close>

theorem checkGoalAchievements_idempotent:
  assumes "checkGoalAchievements p now userId = (Inr achieved, p1)"
  shows "checkGoalAchievements (p1\<lparr>faults := []\<rparr>) now userId = (Inr [], p1\<lparr>faults := []\<rparr>)"
proof -
  let ?active = "\<lambda>g. goal_user_id g = userId \<and> goal_status g = ''active''"
  from assms obtain rows pa where
    scan: "pool_query p (\<lambda>q. (filter ?active (user_goals q), q)) = (Inr rows, pa)"
    and loop: "achievements_loop now userId rows [] pa = (Inr achieved, p1)"
    by (auto simp: checkGoalAchievements_def and_then_def split: prod.splits sum.splits)
  from pool_query_read [OF scan] have
    rows: "rows = filter ?active (user_goals pa)" by simp
  let ?q = "p1\<lparr>faults := []\<rparr>"
  have mq: "metrics_of ?q = metrics_of pa"
    using achievements_loop_leaves [OF loop] by (simp add: metrics_of_def)
  have low: "of_int (current_value ?q now userId (goal_metric g)) < goal_target g"
    if "g \<in> set (filter ?active (user_goals ?q))" for g
  proof -
    from that have g: "g \<in> set (user_goals p1)" "?active g" by auto
    with achievements_loop_leaves [OF loop] have
      "g \<in> set (user_goals pa)"
      and "\<forall>r \<in> set rows. goal_id r = goal_id g \<longrightarrow>
             of_int (current_value pa now userId (goal_metric r)) < goal_target r"
      by auto
    moreover from this(1) g(2) have "g \<in> set rows" by (simp add: rows)
    ultimately have "of_int (current_value pa now userId (goal_metric g)) < goal_target g"
      by blast
    then show ?thesis by (simp add: current_value_cong [OF mq])
  qed
  have "achievements_loop now userId (filter ?active (user_goals ?q)) [] ?q = (Inr [], ?q)"
    by (rule achievements_loop_nothing) (use low in auto)
  then show ?thesis
    by (simp add: checkGoalAchievements_def and_then_def pool_query_def)
qed

text \<open>
  The witness: with the target 1900 the average 1975 of the four days achieves the goal in
  the first call, which completes it and records it; the second call returns nothing.
\<close>

lemma water_example_fields:
  "faults (water_example t) = []"
  "goal_achievements (water_example t) = []"
  "user_goals (water_example t) =
     [\<lparr>goal_id = 1, goal_user_id = 1, goal_type = ''health'',
       goal_metric = ''water_intake'', goal_target = t,
       goal_status = ''active'', goal_created_at = 20080\<rparr>]"
  "map row_value (metric_since 1 (20093 - 30) (water_intake (water_example t))) =
     [1800, 1800, 2100, 2200]"
  by (simp_all add: water_example_def empty_pool_def metric_since_def day_of_def)

lemma water_example_average: "round_or_zero (sql_avg [1800, 1800, 2100, 2200]) = 1975"
  by (simp add: sql_avg_def round_or_zero_def fl_eval)

lemma water_example_value: "current_value (water_example t) 20093 1 ''water_intake'' = 1975"
  by (simp add: current_value_def water_example_fields [simplified] water_example_average)

lemma water_example_check:
  "\<exists>achieved p1. checkGoalAchievements (water_example 1900) 20093 1 = (Inr achieved, p1)
      \<and> map ag_achievedValue achieved = [1975]
      \<and> map goal_status (user_goals p1) = [''completed'']
      \<and> map ga_goal_id (goal_achievements p1) = [1]"
  by (simp add: checkGoalAchievements_def pool_query_def and_then_def
      getCurrentMetricValue_healthy water_example_fields water_example_value [simplified]
      update_goal_status_def recordGoalAchievement_def)

theorem checkGoalAchievements_idempotent_witness:
  "\<exists>achieved p1. checkGoalAchievements (water_example 1900) 20093 1 = (Inr achieved, p1)
      \<and> map ag_achievedValue achieved = [1975]
      \<and> map goal_status (user_goals p1) = [''completed'']
      \<and> map ga_goal_id (goal_achievements p1) = [1]
      \<and> checkGoalAchievements (p1\<lparr>faults := []\<rparr>) 20093 1 = (Inr [], p1\<lparr>faults := []\<rparr>)"
proof -
  from water_example_check obtain achieved p1 where
    c: "checkGoalAchievements (water_example 1900) 20093 1 = (Inr achieved, p1)"
    and rest: "map ag_achievedValue achieved = [1975]"
      "map goal_status (user_goals p1) = [''completed'']"
      "map ga_goal_id (goal_achievements p1) = [1]"
    by auto
  show ?thesis
    by (intro exI [of _ achieved] exI [of _ p1] conjI c rest
        checkGoalAchievements_idempotent [OF c])
qed

section \<open>Properties of the goal progress\<close>











section \<open>Properties of the ranker\<close>

lemma insort_by_key:
  assumes "\<And>a b. (compare a b \<le> 0) = (key a \<le> key b)"
  shows "insort_by compare x ys = insort_key key x ys"
  by (induction ys) (simp_all add: assms)

lemma js_sort_key:
  assumes "\<And>a b. (compare a b \<le> 0) = (key a \<le> key b)"
  shows "js_sort compare xs = sort_key key xs"
proof -
  have "insort_by compare = insort_key key"
    by (intro ext) (rule insort_by_key [OF assms])
  then show ?thesis by (simp add: js_sort_def sort_key_def)
qed

lemma insight_compare_key: "(insight_compare a b \<le> 0) = (insight_key a \<le> insight_key b)"
  by (auto simp: insight_compare_def insight_key_def Let_def less_eq_prod_def)

lemma recommendation_compare_key:
  "(recommendation_compare a b \<le> 0) = (recommendation_key a \<le> recommendation_key b)"
  by (auto simp: recommendation_compare_def recommendation_key_def Let_def less_eq_prod_def)

lemma sortInsightsBySeverity_sort_key:
  "sortInsightsBySeverity xs = sort_key insight_key xs"
  unfolding sortInsightsBySeverity_def by (rule js_sort_key) (rule insight_compare_key)

lemma prioritizeRecommendations_sort_key:
  "prioritizeRecommendations xs = sort_key recommendation_key xs"
  unfolding prioritizeRecommendations_def
  by (rule js_sort_key) (rule recommendation_compare_key)

text \<open>
  C8: sortInsightsBySeverity and prioritizeRecommendations return a permutation of
  their input that is ordered by the keys of the specification (severity, actionable,
  newest timestamp; priority, impact, actionable) and keeps the elements of equal keys
  in their input order; so each returns an already sorted list as it is, and sorting
  twice is sorting once.
\<close>

theorem ranker_stable_sorts:
  "mset (sortInsightsBySeverity ins) = mset ins
   \<and> sorted (map insight_key (sortInsightsBySeverity ins))
   \<and> filter (\<lambda>i. insight_key i = k) (sortInsightsBySeverity ins) =
       filter (\<lambda>i. insight_key i = k) ins
   \<and> mset (prioritizeRecommendations rs) = mset rs
   \<and> sorted (map recommendation_key (prioritizeRecommendations rs))
   \<and> filter (\<lambda>r. recommendation_key r = k') (prioritizeRecommendations rs) =
       filter (\<lambda>r. recommendation_key r = k') rs
   \<and> (sorted (map recommendation_key rs) \<longrightarrow> prioritizeRecommendations rs = rs)
   \<and> prioritizeRecommendations (prioritizeRecommendations rs) = prioritizeRecommendations rs
   \<and> (sorted (map insight_key ins) \<longrightarrow> sortInsightsBySeverity ins = ins)"
  by (simp add: sortInsightsBySeverity_sort_key prioritizeRecommendations_sort_key
      sort_key_stable sort_key_id_if_sorted)


lemma ranked_example_sorted:
  "sorted (map recommendation_key ranked_example)"
  "sorted (map insight_key ranked_insights_example)"
  by (simp_all add: ranked_example_def ranked_insights_example_def recommendation_key_def
      insight_key_def less_eq_prod_def)

theorem ranker_stable_sorts_witness:
  "sorted (map recommendation_key ranked_example)
   \<and> prioritizeRecommendations ranked_example = ranked_example
   \<and> sorted (map insight_key ranked_insights_example)
   \<and> sortInsightsBySeverity ranked_insights_example = ranked_insights_example"
proof -
  note t = ranker_stable_sorts [where rs = ranked_example and ins = ranked_insights_example]
  have a: "prioritizeRecommendations ranked_example = ranked_example"
    using t ranked_example_sorted(1) by blast
  have b: "sortInsightsBySeverity ranked_insights_example = ranked_insights_example"
    using t ranked_example_sorted(2) by blast
  show ?thesis by (intro conjI ranked_example_sorted a b)
qed

end
